theory Spec2Isabelle
  imports Main "HOL-Library.Finite_Map" "HOL-Library.Sublist"
begin

section \<open>The credential store\<close>

text \<open>
  The type \<^verbatim>\<open>signature.Credentials\<close> is declared in the signature package. Only its
  \<^verbatim>\<open>AccessKey\<close> field is read by the store.
\<close>

text \<open>Modelled from the spec: the Credential record of the data model,
  \<^verbatim>\<open>{accessKey: string, secretKey: string}\<close>.\<close>

record Credentials =
  AccessKey :: string
  SecretKey :: string

text \<open>
  \<^verbatim>\<open>defaultCredentialStore\<close> wraps a \<^verbatim>\<open>sync.Map\<close>; the only keys ever stored are
  access keys, the only values credentials.
\<close>

record defaultCredentialStore =
  credStore :: "string \<rightharpoonup> Credentials"

text \<open>\<^verbatim>\<open>Get\<close> returns the zero credential and \<^verbatim>\<open>false\<close> for an absent key.\<close>

definition Get :: "defaultCredentialStore \<Rightarrow> string \<Rightarrow> Credentials \<times> bool" where
  "Get d accessKey =
     (case credStore d accessKey of
        None \<Rightarrow> (\<lparr>AccessKey = [], SecretKey = []\<rparr>, False)
      | Some v \<Rightarrow> (v, True))"

definition Put :: "defaultCredentialStore \<Rightarrow> Credentials \<Rightarrow> defaultCredentialStore" where
  "Put d credentials = d\<lparr>credStore := (credStore d)(AccessKey credentials \<mapsto> credentials)\<rparr>"

section \<open>Slash-separated paths\<close>

text \<open>
  The result of \<^verbatim>\<open>path.Join\<close> and \<^verbatim>\<open>path.Dir\<close> is held as the elements of the cleaned
  path: \<open>Abs [a, b]\<close> is \<^verbatim>\<open>/a/b\<close>, \<open>Abs []\<close> is \<^verbatim>\<open>/\<close>, \<open>Rel [a, b]\<close> is \<^verbatim>\<open>a/b\<close>,
  \<open>Rel []\<close> is \<^verbatim>\<open>.\<close>, and \<open>NoPath\<close> is the empty string that \<^verbatim>\<open>path.Join\<close> returns when
  all its arguments are empty.
\<close>

datatype fpath = NoPath | Rel "string list" | Abs "string list"

fun elems :: "fpath \<Rightarrow> string list" where
  "elems NoPath = []"
| "elems (Rel es) = es"
| "elems (Abs es) = es"

fun split_slash :: "string \<Rightarrow> string list" where
  "split_slash [] = [[]]"
| "split_slash (c # cs) =
     (if c = CHR ''/'' then [] # split_slash cs
      else (case split_slash cs of [] \<Rightarrow> [[c]] | e # es \<Rightarrow> (c # e) # es))"

fun join_slash :: "string list \<Rightarrow> string" where
  "join_slash [] = []"
| "join_slash [e] = e"
| "join_slash (e # es) = e @ CHR ''/'' # join_slash es"

text \<open>
  \<^verbatim>\<open>path.Clean\<close>, element by element: empty and \<^verbatim>\<open>.\<close> elements are dropped; a \<^verbatim>\<open>..\<close>
  removes the element before it, is dropped at the root of a rooted path, and is kept at
  the start of a relative one. \<open>out\<close> holds the elements kept so far, last first.
\<close>

fun clean_elems :: "bool \<Rightarrow> string list \<Rightarrow> string list \<Rightarrow> string list" where
  "clean_elems rooted out [] = rev out"
| "clean_elems rooted out (e # es) =
     (if e = [] \<or> e = ''.'' then clean_elems rooted out es
      else if e = ''..'' then
        (case out of
           [] \<Rightarrow> if rooted then clean_elems rooted [] es else clean_elems rooted [''..''] es
         | t # ts \<Rightarrow>
             if t = ''..'' then clean_elems rooted (''..'' # out) es
             else clean_elems rooted ts es)
      else clean_elems rooted (e # out) es)"

definition path_Clean :: "string \<Rightarrow> fpath" where
  "path_Clean p =
     (if p = [] then Rel []
      else if hd p = CHR ''/'' then Abs (clean_elems True [] (split_slash p))
      else Rel (clean_elems False [] (split_slash p)))"

text \<open>\<^verbatim>\<open>path.Join\<close> ignores empty arguments and cleans the result; with no non-empty
  argument it returns the empty string.\<close>

definition path_Join :: "string list \<Rightarrow> fpath" where
  "path_Join elem =
     (if concat elem = [] then NoPath
      else path_Clean (join_slash (filter (\<lambda>e. e \<noteq> []) elem)))"

fun path_Dir :: "fpath \<Rightarrow> fpath" where
  "path_Dir NoPath = Rel []"
| "path_Dir (Rel es) = Rel (butlast es)"
| "path_Dir (Abs es) = Abs (butlast es)"

text \<open>\<open>inside d p\<close>: the path \<open>p\<close> is the directory \<open>d\<close> or lies below it.\<close>

fun inside :: "fpath \<Rightarrow> fpath \<Rightarrow> bool" where
  "inside (Rel d) (Rel p) = prefix d p"
| "inside (Abs d) (Abs p) = prefix d p"
| "inside _ _ = False"

section \<open>The file bucket: where a key is stored\<close>

record FileBucket =
  path :: string
  name :: string
  directStore :: bool

definition getObjectPath :: "FileBucket \<Rightarrow> string \<Rightarrow> fpath \<times> fpath" where
  "getObjectPath f key =
     (if directStore f then
        (path_Join [path f, name f, key], path_Join [path f, ''.metadata'', name f, key])
      else
        (path_Join [path f, name f, key, ''.content''],
         path_Join [path f, name f, key, ''metadata.json'']))"

section \<open>The file system\<close>

text \<open>
  The operating system is outside the repository. Its model is a finite map from cleaned
  paths to nodes, read the way the kernel resolves a path: every directory on the way
  must exist and be a directory. The root, the working directory and the directories
  above it (\<^verbatim>\<open>.\<close>, \<^verbatim>\<open>..\<close>, \<^verbatim>\<open>../..\<close>) always exist. There are no symbolic links and no
  permission, quota or device errors: an operation fails only for what is or is not at a
  path.
\<close>

datatype errno = ENOENT | ENOTDIR | EISDIR | EEXIST | ENOTEMPTY | EINVAL | EBADF

text \<open>A Go \<^verbatim>\<open>error\<close>: a failed system call, or any other failure (a body that cannot be
  read, a chunk that cannot be decoded, a document that is not JSON, a request whose
  signature is refused), or \<^verbatim>\<open>signature.ErrNone\<close>, the value the verifier returns for a
  request that passes.\<close>

datatype error = ErrNone | Errno errno | Failure string

definition os_IsNotExist :: "error \<Rightarrow> bool" where
  "os_IsNotExist err = (err = Errno ENOENT)"

datatype node = File (contents: string) (modTime: int) | Directory

type_synonym fs = "(fpath, node) fmap"

fun is_anchor :: "fpath \<Rightarrow> bool" where
  "is_anchor NoPath = False"
| "is_anchor (Abs es) = (es = [])"
| "is_anchor (Rel es) = list_all (\<lambda>e. e = ''..'') es"

definition node_at :: "fs \<Rightarrow> fpath \<Rightarrow> node option" where
  "node_at fs p = (if is_anchor p then Some Directory else fmlookup fs p)"

fun ancestors :: "fpath \<Rightarrow> fpath list" where
  "ancestors NoPath = []"
| "ancestors (Rel es) = map (\<lambda>i. Rel (take i es)) [0..<length es]"
| "ancestors (Abs es) = map (\<lambda>i. Abs (take i es)) [0..<length es]"

text \<open>The error of path resolution, if a directory on the way to \<open>p\<close> is missing or is
  a regular file.\<close>

definition blocked :: "fs \<Rightarrow> fpath \<Rightarrow> errno option" where
  "blocked fs p =
     (case find (\<lambda>a. node_at fs a \<noteq> Some Directory) (ancestors p) of
        None \<Rightarrow> None
      | Some a \<Rightarrow> Some (if node_at fs a = None then ENOENT else ENOTDIR))"

definition os_Stat :: "fpath \<Rightarrow> fs \<Rightarrow> errno + node" where
  "os_Stat p fs =
     (if p = NoPath then Inl ENOENT
      else case blocked fs p of
        Some e \<Rightarrow> Inl e
      | None \<Rightarrow> (case node_at fs p of None \<Rightarrow> Inl ENOENT | Some n \<Rightarrow> Inr n))"

definition os_Mkdir :: "fpath \<Rightarrow> fs \<Rightarrow> errno option \<times> fs" where
  "os_Mkdir p fs =
     (if p = NoPath then (Some ENOENT, fs)
      else case blocked fs p of
        Some e \<Rightarrow> (Some e, fs)
      | None \<Rightarrow>
          (case node_at fs p of
             Some n \<Rightarrow> (Some EEXIST, fs)
           | None \<Rightarrow> (None, fmupd p Directory fs)))"

text \<open>
  \<^verbatim>\<open>os.MkdirAll\<close>: nothing to do for a directory, \<^verbatim>\<open>ENOTDIR\<close> for a regular file;
  otherwise the parent first, then \<^verbatim>\<open>Mkdir\<close>, whose error is forgiven when the directory
  is there after all.
\<close>

function os_MkdirAll :: "fpath \<Rightarrow> fs \<Rightarrow> errno option \<times> fs" where
  "os_MkdirAll p fs =
     (case os_Stat p fs of
        Inr Directory \<Rightarrow> (None, fs)
      | Inr (File d t) \<Rightarrow> (Some ENOTDIR, fs)
      | Inl e0 \<Rightarrow>
          (case (if elems p \<noteq> [] then os_MkdirAll (path_Dir p) fs else (None, fs)) of
             (Some e, fs') \<Rightarrow> (Some e, fs')
           | (None, fs') \<Rightarrow>
               (case os_Mkdir p fs' of
                  (None, fs'') \<Rightarrow> (None, fs'')
                | (Some e, fs'') \<Rightarrow>
                    (case os_Stat p fs'' of
                       Inr Directory \<Rightarrow> (None, fs'')
                     | _ \<Rightarrow> (Some e, fs'')))))"
  by pat_completeness auto
termination
proof (relation "measure (\<lambda>(p, fs). length (elems p))")
  show "wf (measure (\<lambda>(p, fs::fs). length (elems p)))"
    by simp
next
  fix p :: fpath and fs :: fs and a :: errno
  assume "elems p \<noteq> []"
  then show "((path_Dir p, fs), (p, fs)) \<in> measure (\<lambda>(p, fs). length (elems p))"
    by (cases p) simp_all
qed

declare os_MkdirAll.simps [simp del]

text \<open>An open file is held as its path: nothing renames or replaces a file while a
  request has it open. \<^verbatim>\<open>os.Open\<close> also opens a directory; reading it fails.\<close>

definition os_Open :: "fpath \<Rightarrow> fs \<Rightarrow> error + fpath" where
  "os_Open p fs = (case os_Stat p fs of Inl e \<Rightarrow> Inl (Errno e) | Inr n \<Rightarrow> Inr p)"

text \<open>\<^verbatim>\<open>os.Create\<close> truncates the file or creates it empty; \<open>now\<close> is the clock.\<close>

definition os_Create :: "int \<Rightarrow> fpath \<Rightarrow> fs \<Rightarrow> (error + fpath) \<times> fs" where
  "os_Create now p fs =
     (if p = NoPath then (Inl (Errno ENOENT), fs)
      else case blocked fs p of
        Some e \<Rightarrow> (Inl (Errno e), fs)
      | None \<Rightarrow>
          (case node_at fs p of
             Some Directory \<Rightarrow> (Inl (Errno EISDIR), fs)
           | _ \<Rightarrow> (Inr p, fmupd p (File [] now) fs)))"

definition file_Write :: "int \<Rightarrow> fpath \<Rightarrow> string \<Rightarrow> fs \<Rightarrow> fs" where
  "file_Write now p b fs =
     (case fmlookup fs p of
        Some (File d t) \<Rightarrow> fmupd p (File (d @ b) now) fs
      | _ \<Rightarrow> fs)"

definition file_Read :: "fpath \<Rightarrow> fs \<Rightarrow> error + string" where
  "file_Read p fs =
     (case node_at fs p of
        Some (File d t) \<Rightarrow> Inr d
      | Some Directory \<Rightarrow> Inl (Errno EISDIR)
      | None \<Rightarrow> Inl (Errno EBADF))"

text \<open>The size and the modification time that \<^verbatim>\<open>Stat\<close> reports for an open file
  (those of a directory are not used).\<close>

definition file_Stat :: "fpath \<Rightarrow> fs \<Rightarrow> int \<times> int" where
  "file_Stat p fs =
     (case node_at fs p of
        Some (File d t) \<Rightarrow> (int (length d), t)
      | _ \<Rightarrow> (0, 0))"

definition has_children :: "fs \<Rightarrow> fpath \<Rightarrow> bool" where
  "has_children fs p = (\<exists>q \<in> fset (fmdom fs). elems q \<noteq> [] \<and> path_Dir q = p)"

definition os_Remove :: "fpath \<Rightarrow> fs \<Rightarrow> errno option \<times> fs" where
  "os_Remove p fs =
     (if p = NoPath then (Some ENOENT, fs)
      else case blocked fs p of
        Some e \<Rightarrow> (Some e, fs)
      | None \<Rightarrow>
          (case node_at fs p of
             None \<Rightarrow> (Some ENOENT, fs)
           | Some (File d t) \<Rightarrow> (None, fmdrop p fs)
           | Some Directory \<Rightarrow>
               if is_anchor p then (Some EINVAL, fs)
               else if has_children fs p then (Some ENOTEMPTY, fs)
               else (None, fmdrop p fs)))"

section \<open>Objects and their metadata\<close>

record Metadata =
  Digest :: string
  ContentLength :: int
  ContentType :: string
  ModTime :: int

text \<open>
  The \<^verbatim>\<open>io.ReadCloser\<close> of an object: a request body (held as what reading it to its end
  gives), such a reader behind \<^verbatim>\<open>newChunkedReader\<close>, or an open file.
\<close>

datatype reader = BodyReader "error + string" | ChunkedReader reader | OsFile fpath

record Object =
  Key :: string
  ContentType :: string
  Metadata :: "Metadata option"
  ReadCloser :: reader

record Error =
  httpCode :: int
  RequestId :: string
  HostId :: string
  other :: string

record Request =
  Method :: string
  URL_Path :: string
  URL_Query :: "string \<rightharpoonup> string list"
  Header :: "string \<rightharpoonup> string list"
  Body :: "error + string"

section \<open>What lies outside the sources\<close>

text \<open>
  The functions the two source files call and do not define are parameters of the model:
  the clock, the standard library's digest and encoders, and the repository's own
  \<^verbatim>\<open>signature.V4SignVerify\<close>, \<^verbatim>\<open>ErrSignature\<close>, \<^verbatim>\<open>ErrWith\<close> and the reading of a
  \<^verbatim>\<open>newChunkedReader\<close>. Every theorem holds for all of them.
\<close>

record env =
  time_Now :: int
  md5_Sum :: "string \<Rightarrow> string"
  json_Marshal :: "Metadata \<Rightarrow> string"
  json_Unmarshal :: "string \<Rightarrow> error + Metadata"
  chunked_ReadAll :: "error + string \<Rightarrow> error + string"
  xml_Marshal_Error :: "Error \<Rightarrow> string"
  xml_Marshal_LocationConstraint :: "string \<Rightarrow> string"
  http_TimeFormat :: "int \<Rightarrow> string"
  ErrWith :: "int \<Rightarrow> error option \<Rightarrow> Error"
  ErrSignature :: "error \<Rightarrow> Error"
  V4SignVerify :: "Request \<Rightarrow> defaultCredentialStore \<Rightarrow> error"

definition hex_digit :: "nat \<Rightarrow> char" where
  "hex_digit n = ''0123456789abcdef'' ! n"

definition hex_EncodeToString :: "string \<Rightarrow> string" where
  "hex_EncodeToString b =
     concat (map (\<lambda>c. [hex_digit (of_char c div 16), hex_digit (of_char c mod 16)]) b)"

definition newChunkedReader :: "reader \<Rightarrow> reader" where
  "newChunkedReader r = ChunkedReader r"

fun io_ReadAll :: "env \<Rightarrow> fs \<Rightarrow> reader \<Rightarrow> error + string" where
  "io_ReadAll env fs (BodyReader b) = b"
| "io_ReadAll env fs (ChunkedReader r) = chunked_ReadAll env (io_ReadAll env fs r)"
| "io_ReadAll env fs (OsFile p) = file_Read p fs"

section \<open>The file bucket\<close>

definition getObjectFile ::
  "env \<Rightarrow> FileBucket \<Rightarrow> string \<Rightarrow> bool \<Rightarrow> fs \<Rightarrow> (error + fpath) \<times> fs" where
  "getObjectFile env f key create fs =
     (let keyPath = fst (getObjectPath f key);
          keyDir = path_Dir keyPath
      in case os_MkdirAll keyDir fs of
           (Some e, fs1) \<Rightarrow> (Inl (Errno e), fs1)
         | (None, fs1) \<Rightarrow>
             if create then os_Create (time_Now env) keyPath fs1
             else (os_Open keyPath fs1, fs1))"

definition FileBucket_PutObjectMetadata ::
  "env \<Rightarrow> FileBucket \<Rightarrow> string \<Rightarrow> Metadata \<Rightarrow> fs \<Rightarrow> (error + Metadata) \<times> fs" where
  "FileBucket_PutObjectMetadata env f key meta fs =
     (let metadata = json_Marshal env meta;
          metadataPath = snd (getObjectPath f key)
      in case os_MkdirAll (path_Dir metadataPath) fs of
           (Some e, fs1) \<Rightarrow> (Inl (Errno e), fs1)
         | (None, fs1) \<Rightarrow>
             (case os_Create (time_Now env) metadataPath fs1 of
                (Inl err, fs2) \<Rightarrow> (Inl err, fs2)
              | (Inr mf, fs2) \<Rightarrow> (Inr meta, file_Write (time_Now env) mf metadata fs2)))"

definition FileBucket_PutObject ::
  "env \<Rightarrow> FileBucket \<Rightarrow> Object \<Rightarrow> fs \<Rightarrow> (error + Metadata) \<times> fs" where
  "FileBucket_PutObject env f object fs =
     (case getObjectFile env f (Key object) True fs of
        (Inl err, fs1) \<Rightarrow> (Inl err, fs1)
      | (Inr cf, fs1) \<Rightarrow>
          (case io_ReadAll env fs1 (ReadCloser object) of
             Inl err \<Rightarrow> (Inl err, fs1)
           | Inr content \<Rightarrow>
               (let fs2 = file_Write (time_Now env) cf content fs1;
                    digest = hex_EncodeToString (md5_Sum env content)
                in FileBucket_PutObjectMetadata env f (Key object)
                     \<lparr>Digest = digest,
                      ContentLength = int (length content),
                      ContentType = Object.ContentType object,
                      ModTime = time_Now env\<rparr> fs2)))"

definition FileBucket_DeleteObject ::
  "FileBucket \<Rightarrow> string \<Rightarrow> fs \<Rightarrow> error option \<times> fs" where
  "FileBucket_DeleteObject f key fs =
     (let keyPath = fst (getObjectPath f key);
          MetadataPath = snd (getObjectPath f key)
      in case os_Remove keyPath fs of
           (Some e, fs1) \<Rightarrow> (Some (Errno e), fs1)
         | (None, fs1) \<Rightarrow>
             (case os_Remove MetadataPath fs1 of
                (Some e, fs2) \<Rightarrow> (Some (Errno e), fs2)
              | (None, fs2) \<Rightarrow> (None, fs2)))"

text \<open>\<^verbatim>\<open>(nil, nil)\<close> is \<open>Inr None\<close>.\<close>

definition FileBucket_GetObjectMetadata ::
  "env \<Rightarrow> FileBucket \<Rightarrow> string \<Rightarrow> fs \<Rightarrow> error + Metadata option" where
  "FileBucket_GetObjectMetadata env f key fs =
     (let metadataPath = snd (getObjectPath f key)
      in case os_Open metadataPath fs of
           Inl err \<Rightarrow> if os_IsNotExist err then Inr None else Inl err
         | Inr mf \<Rightarrow>
             (case file_Read mf fs of
                Inl err \<Rightarrow> Inl err
              | Inr meta \<Rightarrow>
                  (case json_Unmarshal env meta of
                     Inl err \<Rightarrow> Inl err
                   | Inr metadata \<Rightarrow> Inr (Some metadata))))"

definition createMetadataFromFile ::
  "env \<Rightarrow> FileBucket \<Rightarrow> string \<Rightarrow> fs \<Rightarrow> (error + Metadata) \<times> fs" where
  "createMetadataFromFile env f key fs =
     (let keyPath = fst (getObjectPath f key)
      in case os_Open keyPath fs of
           Inl err \<Rightarrow> (Inl err, fs)
         | Inr fc \<Rightarrow>
             (let st = file_Stat fc fs
              in case file_Read fc fs of
                   Inl err \<Rightarrow> (Inl err, fs)
                 | Inr content \<Rightarrow>
                     FileBucket_PutObjectMetadata env f key
                       \<lparr>Digest = hex_EncodeToString (md5_Sum env content),
                        ContentLength = fst st,
                        ContentType = ''application/octet-stream'',
                        ModTime = snd st\<rparr> fs))"

definition FileBucket_GetObject ::
  "env \<Rightarrow> FileBucket \<Rightarrow> string \<Rightarrow> fs \<Rightarrow> (error + Object option) \<times> fs" where
  "FileBucket_GetObject env f key fs =
     (case getObjectFile env f key False fs of
        (Inl err, fs1) \<Rightarrow> if os_IsNotExist err then (Inr None, fs1) else (Inl err, fs1)
      | (Inr fc, fs1) \<Rightarrow>
          (case FileBucket_GetObjectMetadata env f key fs1 of
             Inl err \<Rightarrow> if os_IsNotExist err then (Inr None, fs1) else (Inl err, fs1)
           | Inr (Some metadata) \<Rightarrow>
               (Inr (Some \<lparr>Key = key, ContentType = Metadata.ContentType metadata,
                            Metadata = Some metadata, ReadCloser = OsFile fc\<rparr>), fs1)
           | Inr None \<Rightarrow>
               (case createMetadataFromFile env f key fs1 of
                  (Inl err, fs2) \<Rightarrow> (Inl err, fs2)
                | (Inr metadata, fs2) \<Rightarrow>
                    (Inr (Some \<lparr>Key = key, ContentType = Metadata.ContentType metadata,
                                 Metadata = Some metadata, ReadCloser = OsFile fc\<rparr>), fs2))))"

section \<open>The bucket interface and the server\<close>

record Bucket =
  PutObject :: "Object \<Rightarrow> fs \<Rightarrow> (error + Metadata) \<times> fs"
  DeleteObject :: "string \<Rightarrow> fs \<Rightarrow> error option \<times> fs"
  GetObject :: "string \<Rightarrow> fs \<Rightarrow> (error + Object option) \<times> fs"
  PutObjectMetadata :: "string \<Rightarrow> Metadata \<Rightarrow> fs \<Rightarrow> (error + Metadata) \<times> fs"
  GetObjectMetadata :: "string \<Rightarrow> fs \<Rightarrow> (error + Metadata option) \<times> fs"

text \<open>A \<^verbatim>\<open>FileBucket\<close> as a \<^verbatim>\<open>Bucket\<close>.\<close>

definition FileBucket_Bucket :: "env \<Rightarrow> FileBucket \<Rightarrow> Bucket" where
  "FileBucket_Bucket env f =
     \<lparr>PutObject = FileBucket_PutObject env f,
      DeleteObject = FileBucket_DeleteObject f,
      GetObject = FileBucket_GetObject env f,
      PutObjectMetadata = FileBucket_PutObjectMetadata env f,
      GetObjectMetadata = (\<lambda>key fs. (FileBucket_GetObjectMetadata env f key fs, fs))\<rparr>"

definition NewFileBucket ::
  "env \<Rightarrow> string \<Rightarrow> string \<Rightarrow> bool \<Rightarrow> fs \<Rightarrow> (error + Bucket) \<times> fs" where
  "NewFileBucket env basePath bucketName direct fs =
     (let bucket = \<lparr>path = basePath, name = bucketName, directStore = direct\<rparr>
      in case os_MkdirAll (path_Join [basePath, bucketName]) fs of
           (Some e, fs1) \<Rightarrow> (Inl (Errno e), fs1)
         | (None, fs1) \<Rightarrow>
             if directStore bucket then
               (case os_MkdirAll (path_Join [basePath, ''.metadata'', bucketName]) fs1 of
                  (Some e, fs2) \<Rightarrow> (Inl (Errno e), fs2)
                | (None, fs2) \<Rightarrow> (Inr (FileBucket_Bucket env bucket), fs2))
             else (Inr (FileBucket_Bucket env bucket), fs1))"

record server =
  bucketFn :: "string \<Rightarrow> fs \<Rightarrow> (error + Bucket) \<times> fs"
  credentials :: "defaultCredentialStore option"

definition GetBucket :: "server \<Rightarrow> string \<Rightarrow> fs \<Rightarrow> (error + Bucket) \<times> fs" where
  "GetBucket s bucketName fs = bucketFn s bucketName fs"

subsection \<open>Strings and headers\<close>

definition strings_Trim :: "string \<Rightarrow> string \<Rightarrow> string" where
  "strings_Trim s cutset =
     rev (dropWhile (\<lambda>c. c \<in> set cutset) (rev (dropWhile (\<lambda>c. c \<in> set cutset) s)))"

text \<open>\<^verbatim>\<open>strings.SplitN\<close> for a separator of one character and a count that is not
  negative.\<close>

fun strings_SplitN :: "string \<Rightarrow> char \<Rightarrow> nat \<Rightarrow> string list" where
  "strings_SplitN s sep 0 = []"
| "strings_SplitN s sep (Suc 0) = [s]"
| "strings_SplitN s sep (Suc (Suc n)) =
     (if sep \<in> set s then
        takeWhile (\<lambda>c. c \<noteq> sep) s
          # strings_SplitN (tl (dropWhile (\<lambda>c. c \<noteq> sep) s)) sep (Suc n)
      else [s])"

definition to_upper :: "char \<Rightarrow> char" where
  "to_upper c =
     (case map_of (zip ''abcdefghijklmnopqrstuvwxyz'' ''ABCDEFGHIJKLMNOPQRSTUVWXYZ'') c of
        Some u \<Rightarrow> u
      | None \<Rightarrow> c)"

definition to_lower :: "char \<Rightarrow> char" where
  "to_lower c =
     (case map_of (zip ''ABCDEFGHIJKLMNOPQRSTUVWXYZ'' ''abcdefghijklmnopqrstuvwxyz'') c of
        Some l \<Rightarrow> l
      | None \<Rightarrow> c)"

definition validHeaderFieldByte :: "char \<Rightarrow> bool" where
  "validHeaderFieldByte c =
     (let n = of_char c :: nat
      in (48 \<le> n \<and> n \<le> 57) \<or> (65 \<le> n \<and> n \<le> 90) \<or> (97 \<le> n \<and> n \<le> 122)
         \<or> n \<in> {33, 35, 36, 37, 38, 39, 42, 43, 45, 46, 94, 95, 96, 124, 126})"

text \<open>\<open>up\<close>: the next letter starts a word (the first one, and each one after a
  hyphen).\<close>

fun canonical_from :: "bool \<Rightarrow> string \<Rightarrow> string" where
  "canonical_from up [] = []"
| "canonical_from up (c # cs) =
     (if up then to_upper c else to_lower c) # canonical_from (c = CHR ''-'') cs"

definition CanonicalMIMEHeaderKey :: "string \<Rightarrow> string" where
  "CanonicalMIMEHeaderKey s =
     (if list_all validHeaderFieldByte s then canonical_from True s else s)"

definition Header_Get :: "(string \<rightharpoonup> string list) \<Rightarrow> string \<Rightarrow> string" where
  "Header_Get h key =
     (case h (CanonicalMIMEHeaderKey key) of
        Some (v # vs) \<Rightarrow> v
      | _ \<Rightarrow> [])"

definition Header_Set ::
  "(string \<rightharpoonup> string list) \<Rightarrow> string \<Rightarrow> string \<Rightarrow> (string \<rightharpoonup> string list)" where
  "Header_Set h key v = h(CanonicalMIMEHeaderKey key \<mapsto> [v])"

subsection \<open>The response writer\<close>

text \<open>The response is held as the headers set so far and the calls of
  \<^verbatim>\<open>WriteHeader\<close> and \<^verbatim>\<open>Write\<close> made, in order.\<close>

datatype call = CallWriteHeader int | CallWrite string

record ResponseWriter =
  header :: "string \<rightharpoonup> string list"
  calls :: "call list"

definition SetHeader :: "ResponseWriter \<Rightarrow> string \<Rightarrow> string \<Rightarrow> ResponseWriter" where
  "SetHeader w key v = w\<lparr>header := Header_Set (header w) key v\<rparr>"

definition WriteHeader :: "ResponseWriter \<Rightarrow> int \<Rightarrow> ResponseWriter" where
  "WriteHeader w code = w\<lparr>calls := calls w @ [CallWriteHeader code]\<rparr>"

definition Write :: "ResponseWriter \<Rightarrow> string \<Rightarrow> ResponseWriter" where
  "Write w b = w\<lparr>calls := calls w @ [CallWrite b]\<rparr>"

definition WriteError :: "env \<Rightarrow> ResponseWriter \<Rightarrow> Error \<Rightarrow> ResponseWriter" where
  "WriteError env w err =
     (let err1 = err\<lparr>RequestId := Header_Get (header w) ''x-amz-request-id''\<rparr>;
          err2 = err1\<lparr>HostId := Header_Get (header w) ''x-amz-id-2''\<rparr>;
          body = xml_Marshal_Error env err2
      in Write (WriteHeader w (httpCode err2)) body)"

text \<open>\<^verbatim>\<open>io.Copy(w, object)\<close>: the bytes read are written, a read error is dropped.\<close>

definition io_Copy :: "env \<Rightarrow> fs \<Rightarrow> ResponseWriter \<Rightarrow> reader \<Rightarrow> ResponseWriter" where
  "io_Copy env fs w r =
     (case io_ReadAll env fs r of
        Inl err \<Rightarrow> w
      | Inr content \<Rightarrow> if content = [] then w else Write w content)"

definition StatusOK :: int where "StatusOK = 200"
definition StatusBadRequest :: int where "StatusBadRequest = 400"
definition StatusNotFound :: int where "StatusNotFound = 404"
definition StatusMethodNotAllowed :: int where "StatusMethodNotAllowed = 405"
definition StatusInternalServerError :: int where "StatusInternalServerError = 500"

definition HeaderEtag :: string where "HeaderEtag = ''Etag''"

subsection \<open>The handlers\<close>

text \<open>\<open>uri\<close> is \<^verbatim>\<open>strings.SplitN(strings.Trim(r.URL.Path, "/"), "/", 2)\<close>.\<close>

definition uri_of :: "Request \<Rightarrow> string list" where
  "uri_of r = strings_SplitN (strings_Trim (URL_Path r) ''/'') CHR ''/'' 2"

definition HandlePutObject ::
  "env \<Rightarrow> server \<Rightarrow> ResponseWriter \<Rightarrow> Request \<Rightarrow> fs \<Rightarrow> ResponseWriter \<times> fs" where
  "HandlePutObject env s w r fs =
     (if Method r \<noteq> ''PUT'' then
        (WriteError env w (ErrWith env StatusMethodNotAllowed None), fs)
      else let uri = uri_of r in
      if length uri \<noteq> 2 then (WriteError env w (ErrWith env StatusNotFound None), fs)
      else let
        object = \<lparr>Key = uri ! 1,
                  ContentType = Header_Get (Header r) ''Content-Type'',
                  Metadata = Some \<lparr>Digest = [], ContentLength = 0, ContentType = [],
                                    ModTime = time_Now env\<rparr>,
                  ReadCloser = BodyReader (Body r)\<rparr>;
        sha = Header_Get (Header r) ''X-Amz-Content-Sha256'';
        streaming = (sha = ''STREAMING-AWS4-HMAC-SHA256-PAYLOAD'');
        object = (if streaming
                  then object\<lparr>ReadCloser := newChunkedReader (BodyReader (Body r))\<rparr>
                  else object);
        size = Header_Get (Header r) ''X-Amz-Decoded-Content-Length''
      in
      if streaming \<and> size = [] then
        (WriteError env w (ErrWith env StatusBadRequest None), fs)
      else
        (case GetBucket s (uri ! 0) fs of
           (Inl err, fs1) \<Rightarrow>
             (WriteError env w (ErrWith env StatusInternalServerError (Some err)), fs1)
         | (Inr b, fs1) \<Rightarrow>
             (case PutObject b object fs1 of
                (Inl err, fs2) \<Rightarrow>
                  (WriteError env w (ErrWith env StatusInternalServerError (Some err)), fs2)
              | (Inr metadata, fs2) \<Rightarrow>
                  (Write (WriteHeader
                     (SetHeader w HeaderEtag (CHR 0x22 # Digest metadata @ [CHR 0x22]))
                     StatusOK) [], fs2))))"

text \<open>
  An object whose \<^verbatim>\<open>Metadata\<close> is nil makes the handler panic after it has set the
  content type; \<^verbatim>\<open>ServeHTTP\<close> recovers, and nothing more is written.
\<close>

definition HandleGetObject ::
  "env \<Rightarrow> server \<Rightarrow> ResponseWriter \<Rightarrow> Request \<Rightarrow> fs \<Rightarrow> ResponseWriter \<times> fs" where
  "HandleGetObject env s w r fs =
     (if Method r \<noteq> ''GET'' then
        (WriteError env w (ErrWith env StatusMethodNotAllowed None), fs)
      else let uri = uri_of r in
      if URL_Query r ''location'' \<noteq> None \<and> length uri = 1 then
        (Write (WriteHeader w StatusOK)
           (xml_Marshal_LocationConstraint env ''http://s3.amazonaws.com/doc/2006-03-01/''), fs)
      else if length uri \<noteq> 2 then
        (WriteError env w (ErrWith env StatusNotFound None), fs)
      else
        (case GetBucket s (uri ! 0) fs of
           (Inl err, fs1) \<Rightarrow>
             (WriteError env w (ErrWith env StatusInternalServerError (Some err)), fs1)
         | (Inr b, fs1) \<Rightarrow>
             (case GetObject b (uri ! 1) fs1 of
                (Inl err, fs2) \<Rightarrow>
                  (WriteError env w (ErrWith env StatusInternalServerError (Some err)), fs2)
              | (Inr None, fs2) \<Rightarrow>
                  (WriteError env w (ErrWith env StatusNotFound None), fs2)
              | (Inr (Some object), fs2) \<Rightarrow>
                  (let w1 = SetHeader w ''Content-Type'' (Object.ContentType object)
                   in case Metadata object of
                        None \<Rightarrow> (w1, fs2)
                      | Some m \<Rightarrow>
                          (let w2 = SetHeader w1 ''Last-Modified''
                                      (http_TimeFormat env (ModTime m));
                               w3 = SetHeader w2 HeaderEtag (Digest m);
                               w4 = WriteHeader w3 StatusOK
                           in (io_Copy env fs2 w4 (ReadCloser object), fs2))))))"

definition HandleDeleteObject ::
  "env \<Rightarrow> server \<Rightarrow> ResponseWriter \<Rightarrow> Request \<Rightarrow> fs \<Rightarrow> ResponseWriter \<times> fs" where
  "HandleDeleteObject env s w r fs =
     (if Method r \<noteq> ''DELETE'' then
        (WriteError env w (ErrWith env StatusMethodNotAllowed None), fs)
      else let uri = uri_of r in
      if length uri \<noteq> 2 then (WriteError env w (ErrWith env StatusNotFound None), fs)
      else
        (case GetBucket s (uri ! 0) fs of
           (Inl err, fs1) \<Rightarrow>
             (WriteError env w (ErrWith env StatusInternalServerError (Some err)), fs1)
         | (Inr b, fs1) \<Rightarrow>
             (case DeleteObject b (uri ! 1) fs1 of
                (err, fs2) \<Rightarrow>
                  (let w1 = (case err of
                               Some e \<Rightarrow>
                                 WriteError env w
                                   (ErrWith env StatusInternalServerError (Some e))
                             | None \<Rightarrow> w)
                   in (Write (WriteHeader w1 StatusOK) [], fs2)))))"

definition HandleGetObjectMetadata ::
  "env \<Rightarrow> server \<Rightarrow> ResponseWriter \<Rightarrow> Request \<Rightarrow> fs \<Rightarrow> ResponseWriter \<times> fs" where
  "HandleGetObjectMetadata env s w r fs =
     (if Method r \<noteq> ''HEAD'' then
        (WriteError env w (ErrWith env StatusMethodNotAllowed None), fs)
      else let uri = uri_of r in
      if length uri \<noteq> 2 then (WriteError env w (ErrWith env StatusNotFound None), fs)
      else
        (case GetBucket s (uri ! 0) fs of
           (Inl err, fs1) \<Rightarrow>
             (WriteError env w (ErrWith env StatusInternalServerError (Some err)), fs1)
         | (Inr b, fs1) \<Rightarrow>
             (case GetObjectMetadata b (uri ! 1) fs1 of
                (Inl err, fs2) \<Rightarrow>
                  (WriteError env w (ErrWith env StatusInternalServerError (Some err)), fs2)
              | (Inr None, fs2) \<Rightarrow>
                  (WriteError env w (ErrWith env StatusNotFound None), fs2)
              | (Inr (Some metadata), fs2) \<Rightarrow>
                  (let w1 = SetHeader w ''Content-Type'' (Metadata.ContentType metadata);
                       w2 = SetHeader w1 ''Last-Modified''
                              (http_TimeFormat env (ModTime metadata));
                       w3 = SetHeader w2 HeaderEtag (Digest metadata)
                   in (Write (WriteHeader w3 StatusOK) [], fs2)))))"

text \<open>The \<^verbatim>\<open>switch r.Method\<close> of \<^verbatim>\<open>ServeHTTP\<close>; any other method gets no response.\<close>

definition dispatch ::
  "env \<Rightarrow> server \<Rightarrow> ResponseWriter \<Rightarrow> Request \<Rightarrow> fs \<Rightarrow> ResponseWriter \<times> fs" where
  "dispatch env s w r fs =
     (if Method r = ''HEAD'' then HandleGetObjectMetadata env s w r fs
      else if Method r = ''PUT'' then HandlePutObject env s w r fs
      else if Method r = ''DELETE'' then HandleDeleteObject env s w r fs
      else if Method r = ''GET'' then HandleGetObject env s w r fs
      else (w, fs))"

definition ServeHTTP ::
  "env \<Rightarrow> server \<Rightarrow> ResponseWriter \<Rightarrow> Request \<Rightarrow> fs \<Rightarrow> ResponseWriter \<times> fs" where
  "ServeHTTP env s w r fs =
     (case credentials s of
        Some store \<Rightarrow>
          (let err = V4SignVerify env r store
           in if err \<noteq> ErrNone then (WriteError env w (ErrSignature env err), fs)
              else dispatch env s w r fs)
      | None \<Rightarrow> dispatch env s w r fs)"

subsection \<open>Construction\<close>


definition WithAuthStore :: "defaultCredentialStore \<Rightarrow> server \<Rightarrow> server" where
  "WithAuthStore store s = s\<lparr>credentials := Some store\<rparr>"

text \<open>The map of \<^verbatim>\<open>WithAuth\<close> is held as its entries in the order the loop visits
  them.\<close>

definition WithAuth :: "(string \<times> string) list \<Rightarrow> server \<Rightarrow> server" where
  "WithAuth creds s =
     (let store = (case credentials s of
                     None \<Rightarrow> \<lparr>credStore = Map.empty\<rparr>
                   | Some store \<Rightarrow> store)
      in s\<lparr>credentials :=
             Some (foldl Put store
                     (map (\<lambda>(accessKey, secretKey).
                             \<lparr>AccessKey = accessKey, SecretKey = secretKey\<rparr>) creds))\<rparr>)"

definition NewFileServer :: "env \<Rightarrow> string \<Rightarrow> (server \<Rightarrow> server) list \<Rightarrow> server" where
  "NewFileServer env basePath options =
     foldl (\<lambda>s opt. opt s)
       \<lparr>bucketFn = (\<lambda>bucketName. NewFileBucket env basePath bucketName False),
        credentials = None\<rparr>
       options"

section \<open>Example values\<close>

text \<open>A stand-in for everything outside the sources, used where a theorem is run on a
  concrete request. Its JSON stand-in keeps the two fields the server reads back.\<close>

definition example_env :: env where
  "example_env =
     \<lparr>time_Now = 1000,
      md5_Sum = (\<lambda>b. take 2 b),
      json_Marshal = (\<lambda>m. replicate (nat (ContentLength m)) CHR ''#'' @ Digest m),
      json_Unmarshal = (\<lambda>b. Inr \<lparr>Digest = dropWhile (\<lambda>c. c = CHR ''#'') b,
                                   ContentLength = int (length (takeWhile (\<lambda>c. c = CHR ''#'') b)),
                                   ContentType = [], ModTime = 0\<rparr>),
      chunked_ReadAll = (\<lambda>b. b),
      xml_Marshal_Error = (\<lambda>e. ''<Error/>''),
      xml_Marshal_LocationConstraint = (\<lambda>ns. ''<LocationConstraint/>''),
      http_TimeFormat = (\<lambda>t. ''Thu, 01 Jan 1970 00:00:01 GMT''),
      ErrWith = (\<lambda>code cause. \<lparr>httpCode = code, RequestId = [], HostId = [], other = []\<rparr>),
      ErrSignature = (\<lambda>err. \<lparr>httpCode = 403, RequestId = [], HostId = [], other = []\<rparr>),
      V4SignVerify = (\<lambda>r store. Failure ''SignatureDoesNotMatch'')\<rparr>"

definition example_writer :: ResponseWriter where
  "example_writer = \<lparr>header = Map.empty, calls = []\<rparr>"

definition example_request :: "string \<Rightarrow> string \<Rightarrow> Request" where
  "example_request m p =
     \<lparr>Method = m, URL_Path = p, URL_Query = Map.empty, Header = Map.empty,
      Body = Inr ''hello''\<rparr>"

text \<open>A bucket \<^verbatim>\<open>b\<close> under \<^verbatim>\<open>/other\<close>, the file system after the bucket is opened, after an
  object \<^verbatim>\<open>k\<close> is looked for, and after \<^verbatim>\<open>hello\<close> is stored under \<^verbatim>\<open>k\<close>.\<close>

definition fs_b :: fs where
  "fs_b = fmupd (Abs [''other'', ''b'']) Directory (fmupd (Abs [''other'']) Directory fmempty)"

definition fs_bk :: fs where
  "fs_bk = fmupd (Abs [''other'', ''b'', ''k'']) Directory fs_b"

definition example_bucket :: FileBucket where
  "example_bucket = \<lparr>path = ''/other'', name = ''b'', directStore = False\<rparr>"

definition example_server :: server where
  "example_server = NewFileServer example_env ''/other'' []"

definition streaming_request :: "string \<Rightarrow> Request" where
  "streaming_request p =
     \<lparr>Method = ''PUT'', URL_Path = p, URL_Query = Map.empty,
      Header = [''X-Amz-Content-Sha256'' \<mapsto> [''STREAMING-AWS4-HMAC-SHA256-PAYLOAD'']],
      Body = Inr ''5;chunk-signature=00 hello''\<rparr>"

definition fs_put :: fs where
  "fs_put = fmupd (Abs [''other'', ''b'', ''k'', ''metadata.json'']) (File ''#####6865'' 1000)
             (fmupd (Abs [''other'', ''b'', ''k'', ''.content'']) (File ''hello'' 1000) fs_bk)"

section \<open>Running the model on the examples\<close>

lemmas os_eval = os_Stat_def blocked_def node_at_def os_Mkdir_def os_MkdirAll.simps
  os_Open_def os_Create_def file_Write_def file_Read_def file_Stat_def os_Remove_def
  has_children_def os_IsNotExist_def

lemmas path_eval = getObjectPath_def path_Join_def path_Clean_def


lemmas http_eval = Header_Get_def Header_Set_def
  CanonicalMIMEHeaderKey_def validHeaderFieldByte_def to_upper_def to_lower_def
  WriteError_def Write_def WriteHeader_def SetHeader_def io_Copy_def
  StatusOK_def StatusBadRequest_def StatusNotFound_def StatusMethodNotAllowed_def
  StatusInternalServerError_def HeaderEtag_def GetBucket_def

lemma ex_paths: "getObjectPath example_bucket ''k'' =
   (Abs [''other'', ''b'', ''k'', ''.content''], Abs [''other'', ''b'', ''k'', ''metadata.json''])"
  by (simp add: example_bucket_def path_eval)

lemma ex_bucketFn: "bucketFn example_server ''b'' fmempty =
   (Inr (FileBucket_Bucket example_env example_bucket), fs_b)"
  by (simp add: example_server_def NewFileServer_def NewFileBucket_def example_bucket_def
      path_eval os_eval fs_b_def)

lemma ex_credentials: "credentials example_server = None"
  by (simp add: example_server_def NewFileServer_def)


lemma ex_delete:
  "FileBucket_DeleteObject example_bucket ''k'' fs_b = (Some (Errno ENOENT), fs_b)"
  by (simp add: FileBucket_DeleteObject_def ex_paths os_eval fs_b_def)

lemma ex_hex: "hex_EncodeToString ''he'' = ''6865''"
  by (simp add: hex_EncodeToString_def hex_digit_def)

lemma ex_put:
  "FileBucket_PutObject example_env example_bucket
     \<lparr>Key = ''k'', ContentType = ct, Metadata = md, ReadCloser = BodyReader (Inr ''hello'')\<rparr> fs_b =
   (Inr \<lparr>Digest = ''6865'', ContentLength = 5, ContentType = ct, ModTime = 1000\<rparr>, fs_put)"
  by (simp add: FileBucket_PutObject_def FileBucket_PutObjectMetadata_def getObjectFile_def
      ex_paths os_eval fs_b_def fs_bk_def fs_put_def Let_def example_env_def ex_hex
      eval_nat_numeral)

lemma ex_paths_out: "getObjectPath example_bucket ''../c/k'' =
   (Abs [''other'', ''c'', ''k'', ''.content''], Abs [''other'', ''c'', ''k'', ''metadata.json''])"
  by (simp add: example_bucket_def path_eval)

lemma ex_put_outside:
  "fmlookup (snd (FileBucket_PutObject example_env example_bucket
     \<lparr>Key = ''../c/k'', ContentType = [], Metadata = None,
      ReadCloser = BodyReader (Inr ''hello'')\<rparr> fs_b))
     (Abs [''other'', ''c'', ''k'', ''.content'']) = Some (File ''hello'' 1000)"
  by (simp add: FileBucket_PutObject_def FileBucket_PutObjectMetadata_def getObjectFile_def
      ex_paths_out os_eval fs_b_def Let_def example_env_def ex_hex eval_nat_numeral)

lemma streaming_headers:
  "Method (streaming_request p) = ''PUT''"
  "Header_Get (Header (streaming_request p)) ''X-Amz-Content-Sha256'' =
     ''STREAMING-AWS4-HMAC-SHA256-PAYLOAD''"
  "Header_Get (Header (streaming_request p)) ''X-Amz-Decoded-Content-Length'' = []"
  by (simp_all add: streaming_request_def Header_Get_def CanonicalMIMEHeaderKey_def
      validHeaderFieldByte_def to_upper_def to_lower_def)

section \<open>The credential store: the last write wins\<close>

lemma Get_foldl_Put:
  "Get (foldl Put d puts) k =
     (case find (\<lambda>c. AccessKey c = k) (rev puts) of
        Some c \<Rightarrow> (c, True)
      | None \<Rightarrow> Get d k)"
proof (induction puts arbitrary: d rule: rev_induct)
  case Nil
  show ?case by simp
next
  case (snoc c puts)
  show ?case
  proof (cases "AccessKey c = k")
    case True
    then show ?thesis by (simp add: Get_def Put_def)
  next
    case False
    have "Get (foldl Put d (puts @ [c])) k = Get (foldl Put d puts) k"
      using False by (simp add: Get_def Put_def)
    then show ?thesis using False by (simp add: snoc.IH)
  qed
qed

text \<open>
  C3. After any sequence of \<^verbatim>\<open>Put\<close> calls on a new store, \<^verbatim>\<open>Get\<close> of an access key
  returns the credential of the latest \<^verbatim>\<open>Put\<close> that carries this access key, with
  \<^verbatim>\<open>true\<close>; if no \<^verbatim>\<open>Put\<close> carried it, \<^verbatim>\<open>Get\<close> returns the zero credential with \<^verbatim>\<open>false\<close>.
  \<^verbatim>\<open>Get\<close> has no error result.
\<close>

theorem Get_returns_latest_Put:
  "Get (foldl Put \<lparr>credStore = Map.empty\<rparr> puts) accessKey =
     (case find (\<lambda>c. AccessKey c = accessKey) (rev puts) of
        Some c \<Rightarrow> (c, True)
      | None \<Rightarrow> (\<lparr>AccessKey = [], SecretKey = []\<rparr>, False))"
proof -
  have "Get \<lparr>credStore = Map.empty\<rparr> accessKey = (\<lparr>AccessKey = [], SecretKey = []\<rparr>, False)"
    by (simp add: Get_def)
  then show ?thesis
    by (simp add: Get_foldl_Put split: option.split)
qed

theorem Get_returns_latest_Put_witness:
  "Get (foldl Put \<lparr>credStore = Map.empty\<rparr>
          [\<lparr>AccessKey = ''AKID'', SecretKey = ''old''\<rparr>,
           \<lparr>AccessKey = ''OTHER'', SecretKey = ''x''\<rparr>,
           \<lparr>AccessKey = ''AKID'', SecretKey = ''new''\<rparr>]) ''AKID''
     = (\<lparr>AccessKey = ''AKID'', SecretKey = ''new''\<rparr>, True)
   \<and> Get (foldl Put \<lparr>credStore = Map.empty\<rparr>
          [\<lparr>AccessKey = ''AKID'', SecretKey = ''old''\<rparr>]) ''NOBODY''
     = (\<lparr>AccessKey = [], SecretKey = []\<rparr>, False)"
  using Get_returns_latest_Put
          [of "[\<lparr>AccessKey = ''AKID'', SecretKey = ''old''\<rparr>,
                \<lparr>AccessKey = ''OTHER'', SecretKey = ''x''\<rparr>,
                \<lparr>AccessKey = ''AKID'', SecretKey = ''new''\<rparr>]" "''AKID''"]
        Get_returns_latest_Put [of "[\<lparr>AccessKey = ''AKID'', SecretKey = ''old''\<rparr>]" "''NOBODY''"]
  by simp

section \<open>The signature gate of ServeHTTP\<close>












text \<open>
  C2. With a credential store configured, a verdict other than \<^verbatim>\<open>ErrNone\<close> ends the
  request: \<^verbatim>\<open>ServeHTTP\<close> writes the signature error, which is one \<^verbatim>\<open>WriteHeader\<close> and one
  \<^verbatim>\<open>Write\<close> after what the writer already held, and returns the file system it was given.
  The server's bucket function does not enter the result, so no handler ran.
\<close>

theorem failed_verification_is_terminal:
  assumes "credentials s = Some store"
    and "V4SignVerify env r store \<noteq> ErrNone"
  shows "ServeHTTP env s w r fs =
           (WriteError env w (ErrSignature env (V4SignVerify env r store)), fs)
       \<and> (\<exists>code body. WriteError env w (ErrSignature env (V4SignVerify env r store)) =
             w\<lparr>calls := calls w @ [CallWriteHeader code, CallWrite body]\<rparr>)"
proof
  show "ServeHTTP env s w r fs =
          (WriteError env w (ErrSignature env (V4SignVerify env r store)), fs)"
    using assms by (simp add: ServeHTTP_def)
  show "\<exists>code body. WriteError env w (ErrSignature env (V4SignVerify env r store)) =
          w\<lparr>calls := calls w @ [CallWriteHeader code, CallWrite body]\<rparr>"
    by (simp add: WriteError_def Write_def WriteHeader_def Let_def) blast
qed

theorem failed_verification_is_terminal_witness:
  "ServeHTTP example_env
     \<lparr>bucketFn = (\<lambda>bucketName. NewFileBucket example_env ''/data'' bucketName False),
      credentials = Some \<lparr>credStore = Map.empty\<rparr>\<rparr>
     example_writer (example_request ''PUT'' ''/b/k'') fmempty
   = (\<lparr>header = Map.empty, calls = [CallWriteHeader 403, CallWrite ''<Error/>'']\<rparr>, fmempty)"
proof -
  have v: "V4SignVerify example_env (example_request ''PUT'' ''/b/k'') \<lparr>credStore = Map.empty\<rparr>
           \<noteq> ErrNone"
    by (simp add: example_env_def)
  show ?thesis
    using failed_verification_is_terminal
            [of "\<lparr>bucketFn = (\<lambda>bucketName. NewFileBucket example_env ''/data'' bucketName False),
                  credentials = Some \<lparr>credStore = Map.empty\<rparr>\<rparr>"
               "\<lparr>credStore = Map.empty\<rparr>" example_env "example_request ''PUT'' ''/b/k''"
               example_writer fmempty, OF _ v]
    by (simp add: WriteError_def Write_def WriteHeader_def example_env_def example_writer_def
        Header_Get_def)
qed

section \<open>Keys and the bucket's directory\<close>

lemma split_slash_nonempty: "split_slash s \<noteq> []"
  by (induction s) (auto split: list.splits)

lemma split_slash_append:
  "split_slash (a @ CHR ''/'' # b) = split_slash a @ split_slash b"
  by (induction a) (auto simp: split_slash_nonempty split: list.splits)

lemma split_join_slash:
  "es \<noteq> [] \<Longrightarrow> split_slash (join_slash es) = concat (map split_slash es)"
  by (induction es rule: join_slash.induct) (auto simp: split_slash_append)

lemma hd_join_slash:
  "es \<noteq> [] \<Longrightarrow> hd es \<noteq> [] \<Longrightarrow> hd (join_slash es) = hd (hd es)"
  by (induction es rule: join_slash.induct) auto

lemma join_slash_nonempty:
  "es \<noteq> [] \<Longrightarrow> hd es \<noteq> [] \<Longrightarrow> join_slash es \<noteq> []"
  by (induction es rule: join_slash.induct) auto

lemma clean_elems_append:
  "clean_elems r out (xs @ ys) = clean_elems r (rev (clean_elems r out xs)) ys"
  by (induction xs arbitrary: out) (auto split: list.splits)

lemma clean_elems_no_dotdot:
  "''..'' \<notin> set ys \<Longrightarrow>
   clean_elems r out ys = rev out @ filter (\<lambda>e. e \<noteq> [] \<and> e \<noteq> ''.'') ys"
  by (induction ys arbitrary: out) auto

lemma path_Join_inside:
  assumes A: "concat A \<noteq> []"
    and B: "''..'' \<notin> set (concat (map split_slash (filter (\<lambda>e. e \<noteq> []) B)))"
  shows "inside (path_Join A) (path_Join (A @ B))"
proof -
  let ?ne = "\<lambda>e::string. e \<noteq> []"
  let ?FA = "filter ?ne A" and ?FB = "filter ?ne B"
  let ?SA = "concat (map split_slash ?FA)" and ?SB = "concat (map split_slash ?FB)"
  from A have FA: "?FA \<noteq> []" by (induction A) auto
  then have hdFA: "hd ?FA \<noteq> []" by (metis (mono_tags, lifting) filter_eq_ConsD list.exhaust_sel)
  have neA: "join_slash ?FA \<noteq> []" using FA hdFA by (rule join_slash_nonempty)
  have FAB: "filter ?ne (A @ B) = ?FA @ ?FB" by simp
  have neAB: "?FA @ ?FB \<noteq> []" using FA by simp
  have hdAB: "hd (?FA @ ?FB) \<noteq> []" using FA hdFA by simp
  have nAB: "join_slash (?FA @ ?FB) \<noteq> []" using neAB hdAB by (rule join_slash_nonempty)
  have hd_eq: "hd (join_slash (?FA @ ?FB)) = hd (join_slash ?FA)"
    using FA hdFA by (simp add: hd_join_slash)
  have sA: "split_slash (join_slash ?FA) = ?SA" using FA by (rule split_join_slash)
  have sAB: "split_slash (join_slash (?FA @ ?FB)) = ?SA @ ?SB"
    using neAB by (simp add: split_join_slash)
  have cl: "clean_elems r [] (?SA @ ?SB) =
        clean_elems r [] ?SA @ filter (\<lambda>e. e \<noteq> [] \<and> e \<noteq> ''.'') ?SB" for r
    using B by (simp add: clean_elems_append clean_elems_no_dotdot)
  from A have cAB: "concat (A @ B) \<noteq> []" by simp
  show ?thesis
    using A cAB neA nAB
    unfolding path_Join_def FAB path_Clean_def hd_eq sA sAB cl
    by simp
qed

lemma no_dotdot_with_suffix:
  assumes "''..'' \<notin> set (split_slash key)" and "split_slash sfx = [sfx]" and "sfx \<noteq> ''..''"
  shows "''..'' \<notin> set (concat (map split_slash (filter (\<lambda>e. e \<noteq> []) [key, sfx])))"
  using assms by auto

text \<open>
  C1, as the code has it. Nothing rejects a \<^verbatim>\<open>.\<close> or \<^verbatim>\<open>..\<close> element of a key:
  \<^verbatim>\<open>getObjectPath\<close>, from which \<^verbatim>\<open>PutObject\<close>, \<^verbatim>\<open>GetObject\<close>, \<^verbatim>\<open>DeleteObject\<close> and
  \<^verbatim>\<open>GetObjectMetadata\<close> take every path they touch, joins the key onto the bucket's
  directory with \<^verbatim>\<open>path.Join\<close>, which drops \<^verbatim>\<open>.\<close> and resolves \<^verbatim>\<open>..\<close>. For a key with no
  \<^verbatim>\<open>..\<close> element the content path lies inside the bucket's directory, and the metadata
  path inside it too (inside the bucket's metadata directory in direct-store mode).
\<close>

theorem key_without_dotdot_stays_inside:
  assumes "path f \<noteq> [] \<or> name f \<noteq> []"
    and "''..'' \<notin> set (split_slash key)"
  shows "inside (path_Join [path f, name f]) (fst (getObjectPath f key))
       \<and> inside (path_Join (if directStore f then [path f, ''.metadata'', name f]
                             else [path f, name f]))
            (snd (getObjectPath f key))"
proof -
  have A: "concat [path f, name f] \<noteq> []" using assms(1) by auto
  have A': "concat [path f, ''.metadata'', name f] \<noteq> []" by simp
  have k: "''..'' \<notin> set (concat (map split_slash (filter (\<lambda>e. e \<noteq> []) [key])))"
    using assms(2) by auto
  have c: "''..'' \<notin> set (concat (map split_slash (filter (\<lambda>e. e \<noteq> []) [key, ''.content''])))"
    using assms(2) by (intro no_dotdot_with_suffix) simp_all
  have m: "''..'' \<notin> set (concat (map split_slash (filter (\<lambda>e. e \<noteq> []) [key, ''metadata.json''])))"
    using assms(2) by (intro no_dotdot_with_suffix) simp_all
  show ?thesis
    using path_Join_inside [OF A k] path_Join_inside [OF A c] path_Join_inside [OF A m]
      path_Join_inside [OF A' k]
    by (simp add: getObjectPath_def)
qed

theorem key_without_dotdot_stays_inside_witness:
  "getObjectPath example_bucket ''a/./b//c'' =
     (Abs [''other'', ''b'', ''a'', ''b'', ''c'', ''.content''],
      Abs [''other'', ''b'', ''a'', ''b'', ''c'', ''metadata.json''])
   \<and> inside (Abs [''other'', ''b''])
        (Abs [''other'', ''b'', ''a'', ''b'', ''c'', ''.content''])
   \<and> inside (Abs [''other'', ''b''])
        (Abs [''other'', ''b'', ''a'', ''b'', ''c'', ''metadata.json''])"
proof -
  have n: "path example_bucket \<noteq> [] \<or> name example_bucket \<noteq> []"
    by (simp add: example_bucket_def)
  have k: "''..'' \<notin> set (split_slash ''a/./b//c'')"
    by simp
  have p: "getObjectPath example_bucket ''a/./b//c'' =
     (Abs [''other'', ''b'', ''a'', ''b'', ''c'', ''.content''],
      Abs [''other'', ''b'', ''a'', ''b'', ''c'', ''metadata.json''])"
    by (simp add: example_bucket_def path_eval)
  have d: "path_Join [path example_bucket, name example_bucket] = Abs [''other'', ''b'']"
    by (simp add: example_bucket_def path_eval)
  have ds: "\<not> directStore example_bucket"
    by (simp add: example_bucket_def)
  show ?thesis
    using key_without_dotdot_stays_inside [OF n k] by (simp add: p d ds)
qed

text \<open>The claim as stated fails: the key \<^verbatim>\<open>../c/k\<close>, which the path \<^verbatim>\<open>/b/../c/k\<close> of a
  request gives, is stored under the directory of the bucket \<^verbatim>\<open>c\<close>.\<close>

theorem dotdot_key_leaves_bucket:
  "getObjectPath example_bucket ''../c/k'' =
     (Abs [''other'', ''c'', ''k'', ''.content''], Abs [''other'', ''c'', ''k'', ''metadata.json''])
   \<and> path_Join [path example_bucket, name example_bucket] = Abs [''other'', ''b'']
   \<and> \<not> inside (path_Join [path example_bucket, name example_bucket])
          (fst (getObjectPath example_bucket ''../c/k''))
   \<and> uri_of (example_request ''PUT'' ''/b/../c/k'') = [''b'', ''../c/k'']
   \<and> fmlookup (snd (FileBucket_PutObject example_env example_bucket
          \<lparr>Key = ''../c/k'', ContentType = [], Metadata = None,
           ReadCloser = BodyReader (Inr ''hello'')\<rparr> fs_b))
        (Abs [''other'', ''c'', ''k'', ''.content'']) = Some (File ''hello'' 1000)"
  by (simp add: ex_put_outside)
    (simp add: example_bucket_def path_eval example_request_def uri_of_def strings_Trim_def
      numeral_2_eq_2)

section \<open>The handlers\<close>

text \<open>
  C4, as the code has it. A PUT request that declares the streaming payload and has no
  (or an empty) \<^verbatim>\<open>X-Amz-Decoded-Content-Length\<close> is refused before the bucket is opened:
  the file system is returned as it was. The error is the bad-request error when the
  path names a bucket and a key; a path without a key is answered \<^verbatim>\<open>404\<close> first.
\<close>

theorem streaming_put_without_length_rejected:
  assumes "Method r = ''PUT''"
    and "Header_Get (Header r) ''X-Amz-Content-Sha256'' = ''STREAMING-AWS4-HMAC-SHA256-PAYLOAD''"
    and "Header_Get (Header r) ''X-Amz-Decoded-Content-Length'' = []"
  shows "HandlePutObject env s w r fs =
           (WriteError env w
              (ErrWith env
                 (if length (uri_of r) = 2 then StatusBadRequest else StatusNotFound) None),
            fs)"
  using assms by (simp add: HandlePutObject_def Let_def)

theorem streaming_put_without_length_rejected_witness:
  "HandlePutObject example_env example_server example_writer (streaming_request ''/b/k'') fmempty =
     (\<lparr>header = Map.empty, calls = [CallWriteHeader 400, CallWrite ''<Error/>'']\<rparr>, fmempty)"
proof -
  have u: "uri_of (streaming_request ''/b/k'') = [''b'', ''k'']"
    by (simp add: streaming_request_def uri_of_def strings_Trim_def numeral_2_eq_2)
  show ?thesis
    using streaming_put_without_length_rejected
            [OF streaming_headers, where p1 = "''/b/k''" and env = example_env
               and s = example_server and w = example_writer and fs = fmempty]
    by (simp add: u http_eval example_writer_def) (simp add: example_env_def)
qed

text \<open>The claim as stated fails for a PUT on \<^verbatim>\<open>/b\<close>: the response is \<^verbatim>\<open>404\<close>.\<close>

theorem streaming_put_without_key_is_not_found:
  "Method (streaming_request ''/b'') = ''PUT''
   \<and> Header_Get (Header (streaming_request ''/b'')) ''X-Amz-Content-Sha256'' =
       ''STREAMING-AWS4-HMAC-SHA256-PAYLOAD''
   \<and> Header_Get (Header (streaming_request ''/b'')) ''X-Amz-Decoded-Content-Length'' = []
   \<and> HandlePutObject example_env example_server example_writer (streaming_request ''/b'') fmempty =
       (\<lparr>header = Map.empty, calls = [CallWriteHeader 404, CallWrite ''<Error/>'']\<rparr>, fmempty)
   \<and> HandlePutObject example_env example_server example_writer (streaming_request ''/b'') fmempty \<noteq>
       (WriteError example_env example_writer (ErrWith example_env StatusBadRequest None), fmempty)"
proof -
  have u: "uri_of (streaming_request ''/b'') = [''b'']"
    by (simp add: streaming_request_def uri_of_def strings_Trim_def numeral_2_eq_2)
  have h: "HandlePutObject example_env example_server example_writer (streaming_request ''/b'') fmempty =
       (\<lparr>header = Map.empty, calls = [CallWriteHeader 404, CallWrite ''<Error/>'']\<rparr>, fmempty)"
    by (simp add: HandlePutObject_def streaming_headers u http_eval example_writer_def)
      (simp add: example_env_def)
  have w: "WriteError example_env example_writer (ErrWith example_env StatusBadRequest None) =
       \<lparr>header = Map.empty, calls = [CallWriteHeader 400, CallWrite ''<Error/>'']\<rparr>"
    by (simp add: http_eval example_writer_def) (simp add: example_env_def)
  show ?thesis
    by (simp add: streaming_headers h w)
qed

text \<open>
  C7. For a PUT request whose \<^verbatim>\<open>X-Amz-Content-Sha256\<close> is not the streaming sentinel,
  the object handed to the bucket's \<^verbatim>\<open>PutObject\<close> (whatever bucket the server opens) has
  the request body itself as its reader, not wrapped by \<^verbatim>\<open>newChunkedReader\<close>, and reading
  it gives what reading the body gives.
\<close>

theorem plain_put_passes_body_through:
  assumes "Method r = ''PUT''"
    and "uri_of r = [bucketName, key]"
    and "Header_Get (Header r) ''X-Amz-Content-Sha256'' \<noteq> ''STREAMING-AWS4-HMAC-SHA256-PAYLOAD''"
    and "GetBucket s bucketName fs = (Inr b, fs1)"
  shows "HandlePutObject env s w r fs =
           (case PutObject b
                   \<lparr>Key = key,
                    ContentType = Header_Get (Header r) ''Content-Type'',
                    Metadata = Some \<lparr>Digest = [], ContentLength = 0, ContentType = [],
                                      ModTime = time_Now env\<rparr>,
                    ReadCloser = BodyReader (Body r)\<rparr> fs1 of
              (Inl err, fs2) \<Rightarrow>
                (WriteError env w (ErrWith env StatusInternalServerError (Some err)), fs2)
            | (Inr metadata, fs2) \<Rightarrow>
                (Write (WriteHeader
                   (SetHeader w HeaderEtag (CHR 0x22 # Digest metadata @ [CHR 0x22]))
                   StatusOK) [], fs2))
       \<and> io_ReadAll env fs1 (BodyReader (Body r)) = Body r"
  using assms by (simp add: HandlePutObject_def Let_def)

theorem plain_put_passes_body_through_witness:
  "HandlePutObject example_env example_server example_writer
     (example_request ''PUT'' ''/b/k'') fmempty =
   (\<lparr>header = [''Etag'' \<mapsto> [[CHR 0x22, CHR ''6'', CHR ''8'', CHR ''6'', CHR ''5'', CHR 0x22]]],
     calls = [CallWriteHeader 200, CallWrite []]\<rparr>, fs_put)
   \<and> fmlookup fs_put (Abs [''other'', ''b'', ''k'', ''.content'']) = Some (File ''hello'' 1000)"
proof -
  let ?r = "example_request ''PUT'' ''/b/k''"
  have m: "Method ?r = ''PUT''"
    by (simp add: example_request_def)
  have u: "uri_of ?r = [''b'', ''k'']"
    by (simp add: example_request_def uri_of_def strings_Trim_def numeral_2_eq_2)
  have h: "Header_Get (Header ?r) ''X-Amz-Content-Sha256'' \<noteq> ''STREAMING-AWS4-HMAC-SHA256-PAYLOAD''"
    by (simp add: example_request_def Header_Get_def)
  have g: "GetBucket example_server ''b'' fmempty =
             (Inr (FileBucket_Bucket example_env example_bucket), fs_b)"
    by (simp add: GetBucket_def ex_bucketFn)
  have b: "Body ?r = Inr ''hello''"
    by (simp add: example_request_def)
  show ?thesis
    using plain_put_passes_body_through [OF m u h g, of example_env example_writer]
    by (simp add: b FileBucket_Bucket_def ex_put http_eval example_writer_def)
      (simp add: fs_put_def)
qed

text \<open>
  C9. When \<^verbatim>\<open>DeleteObject\<close> returns an error, \<^verbatim>\<open>HandleDeleteObject\<close> writes the
  internal-error response and does not return: it goes on to \<^verbatim>\<open>WriteHeader(200)\<close> and
  a \<^verbatim>\<open>Write\<close> of no bytes.
\<close>

theorem delete_error_falls_through:
  assumes "Method r = ''DELETE''"
    and "uri_of r = [bucketName, key]"
    and "GetBucket s bucketName fs = (Inr b, fs1)"
    and "DeleteObject b key fs1 = (Some e, fs2)"
  shows "HandleDeleteObject env s w r fs =
           (Write (WriteHeader
              (WriteError env w (ErrWith env StatusInternalServerError (Some e)))
              StatusOK) [], fs2)
       \<and> calls (fst (HandleDeleteObject env s w r fs)) =
           calls w @
           [CallWriteHeader (httpCode (ErrWith env StatusInternalServerError (Some e))),
            CallWrite (xml_Marshal_Error env
              ((ErrWith env StatusInternalServerError (Some e))
                 \<lparr>RequestId := Header_Get (header w) ''x-amz-request-id'',
                  HostId := Header_Get (header w) ''x-amz-id-2''\<rparr>)),
            CallWriteHeader 200, CallWrite []]"
  using assms
  by (simp add: HandleDeleteObject_def WriteError_def Write_def WriteHeader_def StatusOK_def)

theorem delete_error_falls_through_witness:
  "HandleDeleteObject example_env example_server example_writer
     (example_request ''DELETE'' ''/b/k'') fmempty =
   (\<lparr>header = Map.empty,
     calls = [CallWriteHeader 500, CallWrite ''<Error/>'', CallWriteHeader 200, CallWrite []]\<rparr>,
    fs_b)"
proof -
  have m: "Method (example_request ''DELETE'' ''/b/k'') = ''DELETE''"
    by (simp add: example_request_def)
  have u: "uri_of (example_request ''DELETE'' ''/b/k'') = [''b'', ''k'']"
    by (simp add: example_request_def uri_of_def strings_Trim_def numeral_2_eq_2)
  have g: "GetBucket example_server ''b'' fmempty =
             (Inr (FileBucket_Bucket example_env example_bucket), fs_b)"
    by (simp add: GetBucket_def ex_bucketFn)
  have d: "DeleteObject (FileBucket_Bucket example_env example_bucket) ''k'' fs_b =
             (Some (Errno ENOENT), fs_b)"
    by (simp add: FileBucket_Bucket_def ex_delete)
  show ?thesis
    using delete_error_falls_through [OF m u g d, of example_env example_writer]
    by (simp add: http_eval example_writer_def) (simp add: example_env_def)
qed

end
